theory Spec2Isabelle
  imports Complex_Main
begin

section \<open>Numbers and text\<close>

text \<open>
  The plugin computes with Python floats.  They are modelled by \<^typ>\<open>real\<close>: addition and
  division are the exact ones, and \<open>round(x, nd)\<close> is rounding to the nearest multiple of
  \<open>10 ^ -nd\<close> with ties going to the even neighbour, which is what Python's \<open>round\<close> does
  on the exact value of its argument.
\<close>

definition round_half_even :: "real \<Rightarrow> int" where
  "round_half_even y =
     (let f = \<lfloor>y\<rfloor>; d = y - of_int f
      in if d < 1 / 2 then f else if 1 / 2 < d then f + 1 else if even f then f else f + 1)"

definition py_round :: "real \<Rightarrow> nat \<Rightarrow> real" where
  "py_round x nd = of_int (round_half_even (x * 10 ^ nd)) / 10 ^ nd"

text \<open>Decimal digits of a natural number, most significant first.\<close>

function str_nat :: "nat \<Rightarrow> string" where
  "str_nat m =
     (if m < 10 then [''0123456789'' ! m]
      else str_nat (m div 10) @ [''0123456789'' ! (m mod 10)])"
  by pat_completeness auto
termination
  by (relation "measure id") auto

declare str_nat.simps [simp del]

function zfill :: "nat \<Rightarrow> string \<Rightarrow> string" where
  "zfill w s = (if length s < w then zfill w (CHR ''0'' # s) else s)"
  by pat_completeness auto
termination
  by (relation "measure (\<lambda>(w, s). w - length s)") auto

declare zfill.simps [simp del]

text \<open>The format specification \<open>{x:.<nd>f}\<close>: sign, integer part, and \<open>nd\<close> decimals.\<close>

definition fmt_fixed :: "nat \<Rightarrow> real \<Rightarrow> string" where
  "fmt_fixed nd x =
     (let r = nat (round_half_even (\<bar>x\<bar> * 10 ^ nd));
          body = str_nat (r div 10 ^ nd) @ (if nd = 0 then [] else CHR ''.'' # zfill nd (str_nat (r mod 10 ^ nd)))
      in if x < 0 then CHR ''-'' # body else body)"

section \<open>Host objects\<close>

type_synonym point = "real \<times> real"

record crs =
  authid :: string
  isGeographic :: bool

text \<open>What the handlers read from the canvas and the project at the time of a call.\<close>

record env =
  destinationCrs :: crs
  ellipsoid :: string

record distance_area =
  sourceCrs :: crs
  da_ellipsoid :: string

text \<open>
  \<open>QgsDistanceArea()\<close> followed by \<open>setSourceCrs\<close> and \<open>setEllipsoid\<close>, as written in
  \<open>__init__\<close> and in \<open>_measure_length_dynamic\<close>; \<open>ellipsoid() or 'WGS84'\<close> takes the
  default when the project's string is empty.
\<close>

definition new_distance_area :: "env \<Rightarrow> distance_area" where
  "new_distance_area e =
     \<lparr>sourceCrs = destinationCrs e,
      da_ellipsoid = (if ellipsoid e = [] then ''WGS84'' else ellipsoid e)\<rparr>"

text \<open>
  The two external services are parameters of the model: \<open>measureLength\<close> of a distance
  calculator on a two-point polyline, and the point transform between two reference systems.
\<close>

type_synonym measure_service = "distance_area \<Rightarrow> point \<Rightarrow> point \<Rightarrow> real"
type_synonym transform_service = "crs \<Rightarrow> crs \<Rightarrow> point \<Rightarrow> point"

datatype button = LeftButton | RightButton | MiddleButton

datatype key = Key_Escape | Key_Other

datatype py_error = IndexError | TypeError

section \<open>The measurement tool\<close>

record row =
  Line_ID :: int
  P1x :: real
  P1y :: real
  P2x :: "real option"
  P2y :: "real option"
  length_m :: "real option"
  length_nm :: "real option"
  cum_length_m :: "real option"
  cum_length_nm :: "real option"

record mtool =
  table_rows :: "row list"
  n :: nat
  var_cum_length_m :: real
  last_point :: "point option"
  click_count :: nat
  is_measuring :: bool
  temp_rb :: "point list"
  main_rb :: "point list"
  da :: distance_area
  point_id_counter :: int
  message_bar :: "(string \<times> string) list"

text \<open>\<open>_MeasureMapTool.__init__\<close>; the message bar belongs to the host and starts empty here.\<close>

definition init_tool :: "env \<Rightarrow> mtool" where
  "init_tool e =
     \<lparr>table_rows = [], n = 0, var_cum_length_m = 0, last_point = None, click_count = 0,
      is_measuring = False, temp_rb = [], main_rb = [], da = new_distance_area e,
      point_id_counter = 0, message_bar = []\<rparr>"

definition start_new_measurement :: "mtool \<Rightarrow> mtool" where
  "start_new_measurement s =
     s\<lparr>is_measuring := True, table_rows := [], n := 0, point_id_counter := 0,
       var_cum_length_m := 0, click_count := 1, last_point := None,
       main_rb := [], temp_rb := []\<rparr>"

definition measure_length_dynamic :: "measure_service \<Rightarrow> env \<Rightarrow> point \<Rightarrow> point \<Rightarrow> real" where
  "measure_length_dynamic ml e p1 p2 = ml (new_distance_area e) p1 p2"

text \<open>
  \<open>calculate_segment(idx)\<close>: reads the row, measures between its stored end points, adds the
  unrounded length to the accumulator and stores the four rounded values in the row.
\<close>

definition calculate_segment :: "measure_service \<Rightarrow> env \<Rightarrow> nat \<Rightarrow> mtool \<Rightarrow> py_error + mtool" where
  "calculate_segment ml e idx s =
     (if length (table_rows s) \<le> idx then Inl IndexError
      else
        let r = table_rows s ! idx in
        case (P2x r, P2y r) of
          (Some x2, Some y2) \<Rightarrow>
            let len_m = measure_length_dynamic ml e (P1x r, P1y r) (x2, y2);
                len_nm = len_m / 1852;
                cum = var_cum_length_m s + len_m;
                cum_nm = cum / 1852;
                r' = r\<lparr>length_m := Some (py_round len_m 1),
                       length_nm := Some (py_round len_nm 2),
                       cum_length_m := Some (py_round cum 1),
                       cum_length_nm := Some (py_round cum_nm 2)\<rparr>
            in Inr (s\<lparr>var_cum_length_m := cum, table_rows := (table_rows s)[idx := r']\<rparr>)
        | _ \<Rightarrow> Inl TypeError)"

definition new_row :: "int \<Rightarrow> point \<Rightarrow> row" where
  "new_row i pt =
     \<lparr>Line_ID = i, P1x = py_round (fst pt) 6, P1y = py_round (snd pt) 6,
      P2x = None, P2y = None, length_m = None, length_nm = None,
      cum_length_m = None, cum_length_nm = None\<rparr>"

text \<open>\<open>canvasPressEvent\<close>; \<open>pt\<close> is the map coordinate of the event position.\<close>

definition canvasPressEvent ::
  "measure_service \<Rightarrow> env \<Rightarrow> button \<Rightarrow> point \<Rightarrow> mtool \<Rightarrow> py_error + mtool" where
  "canvasPressEvent ml e b pt s =
     (if b \<noteq> LeftButton then Inr s
      else
        let s1 = s\<lparr>click_count := click_count s + 1\<rparr> in
        if click_count s1 = 1 then
          let s2 = (start_new_measurement s1)\<lparr>last_point := Some pt\<rparr>;
              s3 = s2\<lparr>point_id_counter := point_id_counter s2 + 1\<rparr>
          in Inr (s3\<lparr>table_rows := table_rows s3 @ [new_row (point_id_counter s3) pt]\<rparr>)
        else if length (table_rows s1) \<le> n s1 then Inl IndexError
        else
          let r = (table_rows s1 ! n s1)\<lparr>P2x := Some (py_round (fst pt) 6),
                                          P2y := Some (py_round (snd pt) 6)\<rparr>;
              s2 = s1\<lparr>table_rows := (table_rows s1)[n s1 := r]\<rparr>
          in case calculate_segment ml e (n s2) s2 of
               Inl err \<Rightarrow> Inl err
             | Inr s3 \<Rightarrow>
                 (case last_point s3 of
                    None \<Rightarrow> Inl TypeError
                  | Some lp \<Rightarrow>
                      let s4 = s3\<lparr>main_rb := main_rb s3 @ [lp, pt]\<rparr>;
                          s5 = s4\<lparr>last_point := Some pt,
                                  point_id_counter := point_id_counter s4 + 1,
                                  n := n s4 + 1\<rparr>
                      in Inr (s5\<lparr>table_rows := table_rows s5 @ [new_row (point_id_counter s5) pt]\<rparr>)))"

definition preview_text :: "real \<Rightarrow> real \<Rightarrow> string" where
  "preview_text len_m cum_m =
     ''Segment: '' @ fmt_fixed 1 len_m @ '' m ('' @ fmt_fixed 2 (len_m / 1852) @ '' nm) | Total: ''
       @ fmt_fixed 1 cum_m @ '' m ('' @ fmt_fixed 2 (cum_m / 1852) @ '' nm)''"

text \<open>\<open>canvasMoveEvent\<close>: the temporary length comes from the calculator stored in \<open>self.da\<close>.\<close>

definition canvasMoveEvent :: "measure_service \<Rightarrow> point \<Rightarrow> mtool \<Rightarrow> mtool" where
  "canvasMoveEvent ml cur_pt s =
     (if \<not> is_measuring s then s
      else case last_point s of
        None \<Rightarrow> s
      | Some lp \<Rightarrow>
          let len_m = ml (da s) lp cur_pt;
              cum_m = var_cum_length_m s + len_m
          in s\<lparr>temp_rb := [lp, cur_pt],
               message_bar := [(''Measure'', preview_text len_m cum_m)]\<rparr>)"

record feature =
  geometry :: "point list"
  attr_Line_ID :: int
  attr_Start :: string
  attr_Stop :: string
  attr_length_m :: "real option"
  attr_length_nm :: "real option"
  attr_cum_length_m :: "real option"
  attr_cum_length_nm :: "real option"

record layer =
  layer_crs :: string
  layer_name :: string
  features :: "feature list"

definition wgs84_crs :: crs where
  "wgs84_crs = \<lparr>authid = ''EPSG:4326'', isGeographic = True\<rparr>"

definition point_text :: "point \<Rightarrow> string" where
  "point_text p = fmt_fixed 4 (snd p) @ '', '' @ fmt_fixed 4 (fst p)"

text \<open>The body of the loop over \<open>final_rows\<close> in \<open>finish_measurement\<close>.\<close>

definition make_feature :: "transform_service \<Rightarrow> crs \<Rightarrow> row \<Rightarrow> py_error + feature" where
  "make_feature xf c r =
     (case (P2x r, P2y r) of
        (Some x2, Some y2) \<Rightarrow>
          let p1 = (P1x r, P1y r);
              p2 = (x2, y2);
              g1 = (if isGeographic c then p1 else xf c wgs84_crs p1);
              g2 = (if isGeographic c then p2 else xf c wgs84_crs p2)
          in Inr \<lparr>geometry = [p1, p2], attr_Line_ID = Line_ID r,
                  attr_Start = point_text g1, attr_Stop = point_text g2,
                  attr_length_m = length_m r, attr_length_nm = length_nm r,
                  attr_cum_length_m = cum_length_m r, attr_cum_length_nm = cum_length_nm r\<rparr>
      | _ \<Rightarrow> Inl TypeError)"

fun make_features :: "transform_service \<Rightarrow> crs \<Rightarrow> row list \<Rightarrow> py_error + feature list" where
  "make_features xf c [] = Inr []"
| "make_features xf c (r # rs) =
     (case make_feature xf c r of
        Inl err \<Rightarrow> Inl err
      | Inr f \<Rightarrow> (case make_features xf c rs of Inl err \<Rightarrow> Inl err | Inr fs \<Rightarrow> Inr (f # fs)))"

definition is_complete :: "row \<Rightarrow> bool" where
  "is_complete r = (P2x r \<noteq> None)"

text \<open>
  \<open>finish_measurement\<close>; \<open>stamp\<close> is the formatted current time.  The result is the new tool
  state and the layer handed to the project, if one was created.
\<close>

definition finish_measurement ::
  "transform_service \<Rightarrow> env \<Rightarrow> string \<Rightarrow> mtool \<Rightarrow> py_error + (mtool \<times> layer option)" where
  "finish_measurement xf e stamp s =
     (let s1 = s\<lparr>is_measuring := False\<rparr>;
          final_rows = filter is_complete (table_rows s1)
      in if length final_rows = 0 then Inr (s1, None)
         else case make_features xf (destinationCrs e) final_rows of
           Inl err \<Rightarrow> Inl err
         | Inr feats \<Rightarrow>
             Inr (s1\<lparr>table_rows := [], n := 0, point_id_counter := 0, var_cum_length_m := 0,
                     click_count := 0, last_point := None, is_measuring := False, main_rb := []\<rparr>,
                  Some \<lparr>layer_crs = authid (destinationCrs e),
                        layer_name = ''Measurement_'' @ stamp, features = feats\<rparr>))"

definition canvasDoubleClickEvent ::
  "transform_service \<Rightarrow> env \<Rightarrow> string \<Rightarrow> mtool \<Rightarrow> py_error + (mtool \<times> layer option)" where
  "canvasDoubleClickEvent xf e stamp s =
     (if \<not> is_measuring s then Inr (s, None)
      else finish_measurement xf e stamp (s\<lparr>temp_rb := []\<rparr>))"

definition keyPressEvent :: "key \<Rightarrow> mtool \<Rightarrow> mtool" where
  "keyPressEvent k s =
     (if k = Key_Escape then
        s\<lparr>main_rb := [], temp_rb := [],
          message_bar := message_bar s @ [(''AdvancedMeasureTool'', ''Measurement cancelled'')]\<rparr>
      else s)"

section \<open>The plugin\<close>

datatype map_tool = NoMapTool | MeasureMapTool | OtherMapTool

record plugin =
  tool :: "mtool option"
  canvas_mapTool :: map_tool
  action_checked :: bool

text \<open>
  \<open>toggle_tool\<close>.  The tool object is created once and kept; a tool created by this very call
  is not the canvas's current tool, so the comparison fails for it.
\<close>

definition toggle_tool :: "env \<Rightarrow> plugin \<Rightarrow> plugin" where
  "toggle_tool e p =
     (let created = (tool p = None);
          p1 = (if created then p\<lparr>tool := Some (init_tool e)\<rparr> else p)
      in if \<not> created \<and> canvas_mapTool p1 = MeasureMapTool
         then p1\<lparr>canvas_mapTool := NoMapTool, action_checked := False\<rparr>
         else p1\<lparr>canvas_mapTool := MeasureMapTool, action_checked := True\<rparr>)"

section \<open>Sessions of clicks\<close>

text \<open>
  A run of primary-button presses, each with the canvas and project settings in force when it
  is delivered.  The first exception ends the run.
\<close>

fun press_all :: "measure_service \<Rightarrow> (env \<times> point) list \<Rightarrow> mtool \<Rightarrow> py_error + mtool" where
  "press_all ml [] s = Inr s"
| "press_all ml (c # cs) s =
     (case canvasPressEvent ml (fst c) LeftButton (snd c) s of
        Inl err \<Rightarrow> Inl err
      | Inr s' \<Rightarrow> press_all ml cs s')"

section \<open>Concrete inputs\<close>

text \<open>
  A stand-in for the length service, used to run the handlers on concrete inputs: the sum of
  the coordinate differences, scaled by the length of a degree when the calculator's source
  reference system is geographic.
\<close>

definition flat_measure :: measure_service where
  "flat_measure c p q =
     (if isGeographic (sourceCrs c) then 111320 else 1) * (\<bar>fst q - fst p\<bar> + \<bar>snd q - snd p\<bar>)"

text \<open>A stand-in for the transform service: metres to degrees on a flat earth.\<close>

definition flat_transform :: transform_service where
  "flat_transform c1 c2 p = (fst p / 100000, snd p / 100000)"

definition env_geo :: env where
  "env_geo = \<lparr>destinationCrs = \<lparr>authid = ''EPSG:4326'', isGeographic = True\<rparr>, ellipsoid = ''WGS84''\<rparr>"

definition env_utm :: env where
  "env_utm = \<lparr>destinationCrs = \<lparr>authid = ''EPSG:32632'', isGeographic = False\<rparr>, ellipsoid = []\<rparr>"

text \<open>The tool after one primary-button press at \<open>(1, 2)\<close>, and a plugin holding it.\<close>

definition one_click_tool :: mtool where
  "one_click_tool =
     \<lparr>table_rows = [new_row 1 (1, 2)], n = 0, var_cum_length_m = 0, last_point = Some (1, 2),
      click_count = 1, is_measuring = True, temp_rb = [], main_rb = [],
      da = new_distance_area env_geo, point_id_counter = 1, message_bar = []\<rparr>"

definition active_plugin :: plugin where
  "active_plugin = \<lparr>tool = Some one_click_tool, canvas_mapTool = MeasureMapTool, action_checked = True\<rparr>"

section \<open>Vocabulary for sessions\<close>

text \<open>
  Names for what a run of clicks \<open>cs\<close> is expected to leave in the table: the coordinates
  as stored, the unrounded length of the segment from click \<open>k\<close> to click \<open>k + 1\<close> (measured
  under the settings in force at click \<open>k + 1\<close>), the sum of the first \<open>k\<close> such lengths, and
  the row of a complete segment.
\<close>

definition stored_point :: "point \<Rightarrow> point" where
  "stored_point p = (py_round (fst p) 6, py_round (snd p) 6)"

definition closed_row :: "measure_service \<Rightarrow> env \<Rightarrow> int \<Rightarrow> point \<Rightarrow> point \<Rightarrow> real \<Rightarrow> row" where
  "closed_row ml e i p q acc =
     \<lparr>Line_ID = i, P1x = fst (stored_point p), P1y = snd (stored_point p),
      P2x = Some (fst (stored_point q)), P2y = Some (snd (stored_point q)),
      length_m = Some (py_round (ml (new_distance_area e) (stored_point p) (stored_point q)) 1),
      length_nm = Some (py_round (ml (new_distance_area e) (stored_point p) (stored_point q) / 1852) 2),
      cum_length_m = Some (py_round (acc + ml (new_distance_area e) (stored_point p) (stored_point q)) 1),
      cum_length_nm =
        Some (py_round ((acc + ml (new_distance_area e) (stored_point p) (stored_point q)) / 1852) 2)\<rparr>"

definition segment_length :: "measure_service \<Rightarrow> (env \<times> point) list \<Rightarrow> nat \<Rightarrow> real" where
  "segment_length ml cs k =
     ml (new_distance_area (fst (cs ! Suc k))) (stored_point (snd (cs ! k))) (stored_point (snd (cs ! Suc k)))"

definition running_total :: "measure_service \<Rightarrow> (env \<times> point) list \<Rightarrow> nat \<Rightarrow> real" where
  "running_total ml cs k = sum (segment_length ml cs) {..<k}"

definition complete_row :: "measure_service \<Rightarrow> (env \<times> point) list \<Rightarrow> nat \<Rightarrow> row" where
  "complete_row ml cs k =
     closed_row ml (fst (cs ! Suc k)) (int k + 1) (snd (cs ! k)) (snd (cs ! Suc k)) (running_total ml cs k)"

section \<open>Concrete sessions\<close>

text \<open>Three clicks in a geographic reference system, one degree apart.\<close>

definition demo_clicks :: "(env \<times> point) list" where
  "demo_clicks = [(env_geo, (0, 0)), (env_geo, (0, 1)), (env_geo, (1, 1))]"

text \<open>
  Two clicks whose raw distance and stored distance round differently, and two clicks in a
  projected reference system.
\<close>

definition near_clicks :: "(env \<times> point) list" where
  "near_clicks = [(env_geo, (0, 0)), (env_geo, (149 / 100000000, 0))]"

definition utm_clicks :: "(env \<times> point) list" where
  "utm_clicks = [(env_utm, (500000, 5400000)), (env_utm, (500000, 5500000))]"

section \<open>Evaluation rules\<close>

lemmas fmt_eval = fmt_fixed_def round_half_even_def str_nat.simps zfill.simps

section \<open>Events that leave the session alone\<close>

text \<open>
  C4.  The escape key empties the committed and the preview overlay and posts a notice; the
  segment table, the row index, the id counter, the cumulative accumulator, the click counter,
  the open-segment vertex, the measuring flag and the stored calculator are the same before
  and after.
\<close>

theorem cancel_clears_overlays_only:
  "main_rb (keyPressEvent Key_Escape s) = [] \<and> temp_rb (keyPressEvent Key_Escape s) = []
   \<and> table_rows (keyPressEvent Key_Escape s) = table_rows s
   \<and> n (keyPressEvent Key_Escape s) = n s
   \<and> point_id_counter (keyPressEvent Key_Escape s) = point_id_counter s
   \<and> var_cum_length_m (keyPressEvent Key_Escape s) = var_cum_length_m s
   \<and> click_count (keyPressEvent Key_Escape s) = click_count s
   \<and> last_point (keyPressEvent Key_Escape s) = last_point s
   \<and> is_measuring (keyPressEvent Key_Escape s) = is_measuring s
   \<and> da (keyPressEvent Key_Escape s) = da s"
  by (simp add: keyPressEvent_def)

text \<open>
  C10.  A press of any button other than the primary one returns at once with the whole tool
  state as it was; in particular no row is removed, so there is no undo on the right button.
\<close>

theorem other_button_press_is_noop:
  "b \<noteq> LeftButton \<Longrightarrow> canvasPressEvent ml e b pt s = Inr s"
  by (simp add: canvasPressEvent_def)

theorem other_button_press_is_noop_witness:
  "RightButton \<noteq> LeftButton
   \<and> canvasPressEvent flat_measure env_utm RightButton (3, 4) (init_tool env_geo) = Inr (init_tool env_geo)"
  using other_button_press_is_noop [of RightButton flat_measure env_utm "(3, 4)" "init_tool env_geo"]
  by simp

section \<open>Finishing with no complete segment\<close>

lemma one_click_tool_reached:
  "canvasPressEvent flat_measure env_geo LeftButton (1, 2) (init_tool env_geo) = Inr one_click_tool"
  by (simp add: canvasPressEvent_def init_tool_def start_new_measurement_def one_click_tool_def)

text \<open>
  C1.  When no row of the table has an end vertex, \<open>finish_measurement\<close> creates no layer
  and returns right after clearing the measuring flag: the segment table, the id counter, the
  accumulator, the click counter and the open-segment vertex keep their values instead of
  being reset.
\<close>

theorem finish_without_complete_rows_keeps_state:
  "filter is_complete (table_rows s) = [] \<Longrightarrow>
   finish_measurement xf e stamp s = Inr (s\<lparr>is_measuring := False\<rparr>, None)"
  by (simp add: finish_measurement_def)

theorem finish_without_complete_rows_keeps_state_witness:
  "filter is_complete (table_rows one_click_tool) = []
   \<and> finish_measurement flat_transform env_geo ''20240101_120000'' one_click_tool
       = Inr (one_click_tool\<lparr>is_measuring := False\<rparr>, None)
   \<and> table_rows (one_click_tool\<lparr>is_measuring := False\<rparr>) = [new_row 1 (1, 2)]
   \<and> click_count (one_click_tool\<lparr>is_measuring := False\<rparr>) = 1
   \<and> point_id_counter (one_click_tool\<lparr>is_measuring := False\<rparr>) = 1
   \<and> last_point (one_click_tool\<lparr>is_measuring := False\<rparr>) = Some (1, 2)"
  using finish_without_complete_rows_keeps_state
    [of one_click_tool flat_transform env_geo "''20240101_120000''"]
  by (simp add: one_click_tool_def is_complete_def new_row_def)

text \<open>
  Once the measuring flag is off, a double click does nothing, so the table left behind can
  no longer be finalized.
\<close>

lemma double_click_ignored_when_not_measuring:
  "\<not> is_measuring s \<Longrightarrow> canvasDoubleClickEvent xf e stamp s = Inr (s, None)"
  by (simp add: canvasDoubleClickEvent_def)

section \<open>Which calculator measures\<close>

lemma stored_calculator_length: "flat_measure (da one_click_tool) (1, 2) (4, 6) = 779240"
  by (simp add: one_click_tool_def flat_measure_def new_distance_area_def env_geo_def)

lemma fresh_calculator_length: "measure_length_dynamic flat_measure env_utm (1, 2) (4, 6) = 7"
  by (simp add: measure_length_dynamic_def flat_measure_def new_distance_area_def env_utm_def)

lemma preview_text_779240:
  "preview_text 779240 779240 = ''Segment: 779240.0 m (420.76 nm) | Total: 779240.0 m (420.76 nm)''"
  by (simp add: preview_text_def fmt_eval)

text \<open>
  C2.  The length shown while the pointer moves is measured with the calculator stored in the
  tool when it was constructed; the canvas's reference system at the time of the move is not
  consulted.  (The committed length of a segment, in \<open>calculate_segment\<close>, does use a
  calculator built at the time of the call.)
\<close>

theorem preview_uses_stored_calculator:
  "is_measuring s \<Longrightarrow> last_point s = Some lp \<Longrightarrow>
   message_bar (canvasMoveEvent ml cur s)
     = [(''Measure'', preview_text (ml (da s) lp cur) (var_cum_length_m s + ml (da s) lp cur))]"
  by (simp add: canvasMoveEvent_def Let_def)

theorem preview_uses_stored_calculator_witness:
  "is_measuring one_click_tool \<and> last_point one_click_tool = Some (1, 2)
   \<and> message_bar (canvasMoveEvent flat_measure (4, 6) one_click_tool)
       = [(''Measure'', ''Segment: 779240.0 m (420.76 nm) | Total: 779240.0 m (420.76 nm)'')]
   \<and> measure_length_dynamic flat_measure env_utm (1, 2) (4, 6) = 7"
proof -
  have m: "is_measuring one_click_tool" "last_point one_click_tool = Some (1, 2)"
    and c: "var_cum_length_m one_click_tool = 0"
    by (simp_all add: one_click_tool_def)
  have "message_bar (canvasMoveEvent flat_measure (4, 6) one_click_tool)
          = [(''Measure'', preview_text 779240 779240)]"
    using preview_uses_stored_calculator [OF m, of flat_measure "(4, 6)"]
    by (simp add: stored_calculator_length c)
  then show ?thesis by (simp add: m fresh_calculator_length preview_text_779240)
qed

section \<open>Toggling the tool\<close>

text \<open>
  C3, as the code has it.  Toggling the tool while it is the canvas's map tool unsets it and
  unchecks the action; the tool object stays in the plugin with its state untouched, and the
  next toggle installs that same object again, with the segment table, the counters and the
  open-segment vertex it had.
\<close>

theorem toggle_keeps_tool_state:
  "tool p = Some t \<Longrightarrow> canvas_mapTool p = MeasureMapTool \<Longrightarrow>
   tool (toggle_tool e p) = Some t
   \<and> canvas_mapTool (toggle_tool e p) = NoMapTool
   \<and> \<not> action_checked (toggle_tool e p)
   \<and> tool (toggle_tool e' (toggle_tool e p)) = Some t
   \<and> canvas_mapTool (toggle_tool e' (toggle_tool e p)) = MeasureMapTool
   \<and> action_checked (toggle_tool e' (toggle_tool e p))"
  by (simp add: toggle_tool_def)

theorem toggle_keeps_tool_state_witness:
  "tool active_plugin = Some one_click_tool \<and> canvas_mapTool active_plugin = MeasureMapTool
   \<and> tool (toggle_tool env_geo active_plugin) = Some one_click_tool
   \<and> canvas_mapTool (toggle_tool env_geo active_plugin) = NoMapTool
   \<and> \<not> action_checked (toggle_tool env_geo active_plugin)
   \<and> tool (toggle_tool env_utm (toggle_tool env_geo active_plugin)) = Some one_click_tool
   \<and> canvas_mapTool (toggle_tool env_utm (toggle_tool env_geo active_plugin)) = MeasureMapTool
   \<and> action_checked (toggle_tool env_utm (toggle_tool env_geo active_plugin))"
  using toggle_keeps_tool_state [of active_plugin one_click_tool env_geo env_utm]
  by (simp add: active_plugin_def)

text \<open>
  The session is not discarded: after deactivating and activating again, the tool still holds
  the row and the counters of the interrupted measurement.
\<close>

theorem toggle_discards_session_counterexample:
  "tool (toggle_tool env_geo (toggle_tool env_geo active_plugin)) = Some one_click_tool
   \<and> table_rows one_click_tool \<noteq> [] \<and> click_count one_click_tool = 1
   \<and> last_point one_click_tool = Some (1, 2)"
  by (simp add: toggle_tool_def active_plugin_def one_click_tool_def)

section \<open>The table after a run of clicks\<close>

lemma press_all_append:
  "press_all ml (xs @ ys) s =
     (case press_all ml xs s of Inl err \<Rightarrow> Inl err | Inr s' \<Rightarrow> press_all ml ys s')"
  by (induction xs arbitrary: s) (auto split: sum.splits)

lemma first_press:
  "click_count s = 0 \<Longrightarrow>
   \<exists>s'. canvasPressEvent ml e LeftButton p s = Inr s' \<and> table_rows s' = [new_row 1 p] \<and> n s' = 0
     \<and> var_cum_length_m s' = 0 \<and> last_point s' = Some p \<and> click_count s' = 1 \<and> is_measuring s'
     \<and> point_id_counter s' = 1 \<and> main_rb s' = [] \<and> da s' = da s"
  by (simp add: canvasPressEvent_def start_new_measurement_def)

lemma next_press:
  assumes "click_count s \<noteq> 0" "n s = length pre" "table_rows s = pre @ [new_row i p]"
    "last_point s = Some lp"
  shows "\<exists>s'. canvasPressEvent ml e LeftButton q s = Inr s'
     \<and> table_rows s' = pre @ [closed_row ml e i p q (var_cum_length_m s), new_row (point_id_counter s + 1) q]
     \<and> n s' = Suc (length pre)
     \<and> var_cum_length_m s' = var_cum_length_m s + ml (new_distance_area e) (stored_point p) (stored_point q)
     \<and> last_point s' = Some q \<and> click_count s' = Suc (click_count s)
     \<and> is_measuring s' = is_measuring s \<and> point_id_counter s' = point_id_counter s + 1
     \<and> main_rb s' = main_rb s @ [lp, q] \<and> da s' = da s"
  using assms
  by (simp add: canvasPressEvent_def calculate_segment_def measure_length_dynamic_def Let_def
      new_row_def closed_row_def stored_point_def)


lemma segment_length_append:
  "Suc k < length cs \<Longrightarrow> segment_length ml (cs @ [c]) k = segment_length ml cs k"
  by (simp add: segment_length_def nth_append)

lemma running_total_append:
  "k < length cs \<Longrightarrow> running_total ml (cs @ [c]) k = running_total ml cs k"
  unfolding running_total_def
  by (rule sum.cong) (simp_all add: segment_length_append)

lemma complete_row_append:
  "Suc k < length cs \<Longrightarrow> complete_row ml (cs @ [c]) k = complete_row ml cs k"
  by (simp add: complete_row_def running_total_append nth_append)

lemma complete_rows_append:
  "map (complete_row ml (cs @ [c])) [0..<length cs - 1] = map (complete_row ml cs) [0..<length cs - 1]"
  by (rule map_cong) (simp_all add: complete_row_append)

lemma running_total_Suc:
  "running_total ml cs (Suc k) = running_total ml cs k + segment_length ml cs k"
  by (simp add: running_total_def)

lemma session_state:
  assumes "click_count s = 0" "cs \<noteq> []"
  shows "\<exists>s'. press_all ml cs s = Inr s'
     \<and> table_rows s' = map (complete_row ml cs) [0..<length cs - 1]
                        @ [new_row (int (length cs)) (snd (last cs))]
     \<and> n s' = length cs - 1
     \<and> var_cum_length_m s' = running_total ml cs (length cs - 1)
     \<and> last_point s' = Some (snd (last cs))
     \<and> click_count s' = length cs \<and> is_measuring s'
     \<and> point_id_counter s' = int (length cs) \<and> da s' = da s"
  using assms(2)
proof (induction cs rule: rev_induct)
  case Nil
  then show ?case by simp
next
  case (snoc c cs)
  show ?case
  proof (cases "cs = []")
    case True
    from first_press [OF assms(1), of ml "fst c" "snd c"]
    show ?thesis using True by (auto simp: running_total_def)
  next
    case False
    from snoc.IH [OF False] obtain s1 where
      run: "press_all ml cs s = Inr s1"
      and rows: "table_rows s1 = map (complete_row ml cs) [0..<length cs - 1]
                   @ [new_row (int (length cs)) (snd (last cs))]"
      and idx: "n s1 = length cs - 1"
      and acc: "var_cum_length_m s1 = running_total ml cs (length cs - 1)"
      and lp: "last_point s1 = Some (snd (last cs))"
      and cc: "click_count s1 = length cs" and meas: "is_measuring s1"
      and ids: "point_id_counter s1 = int (length cs)" and das: "da s1 = da s"
      by blast
    have pos: "0 < length cs" using False by simp
    have cc0: "click_count s1 \<noteq> 0" using cc pos by simp
    have idx': "n s1 = length (map (complete_row ml cs) [0..<length cs - 1])"
      using idx by simp
    from next_press [OF cc0 idx' rows lp, of ml "fst c" "snd c"] obtain s2 where
      step: "canvasPressEvent ml (fst c) LeftButton (snd c) s1 = Inr s2"
      and rows2: "table_rows s2 = map (complete_row ml cs) [0..<length cs - 1]
          @ [closed_row ml (fst c) (int (length cs)) (snd (last cs)) (snd c) (var_cum_length_m s1),
             new_row (point_id_counter s1 + 1) (snd c)]"
      and idx2: "n s2 = Suc (length (map (complete_row ml cs) [0..<length cs - 1]))"
      and acc2: "var_cum_length_m s2 = var_cum_length_m s1
          + ml (new_distance_area (fst c)) (stored_point (snd (last cs))) (stored_point (snd c))"
      and lp2: "last_point s2 = Some (snd c)" and cc2: "click_count s2 = Suc (click_count s1)"
      and meas2: "is_measuring s2 = is_measuring s1"
      and ids2: "point_id_counter s2 = point_id_counter s1 + 1" and das2: "da s2 = da s1"
      by blast
    obtain m where m: "length cs = Suc m"
      using pos by (cases "length cs") simp_all
    have lastcs: "cs ! m = last cs"
      using False m by (simp add: last_conv_nth)
    have seg: "segment_length ml (cs @ [c]) m
        = ml (new_distance_area (fst c)) (stored_point (snd (last cs))) (stored_point (snd c))"
      by (simp add: segment_length_def nth_append lastcs m)
    have tot: "running_total ml (cs @ [c]) m = running_total ml cs m"
      by (simp add: running_total_append m)
    have newrow: "complete_row ml (cs @ [c]) m
        = closed_row ml (fst c) (int (length cs)) (snd (last cs)) (snd c) (var_cum_length_m s1)"
      by (simp add: complete_row_def nth_append lastcs tot acc m add.commute)
    have older: "map (complete_row ml (cs @ [c])) [0..<m] = map (complete_row ml cs) [0..<m]"
      using complete_rows_append [of ml cs c] by (simp add: m)
    have run2: "press_all ml (cs @ [c]) s = Inr s2"
      by (simp add: press_all_append run step)
    have rows3: "table_rows s2 = map (complete_row ml (cs @ [c])) [0..<length (cs @ [c]) - 1]
        @ [new_row (int (length (cs @ [c]))) (snd (last (cs @ [c])))]"
      using rows2 older newrow ids by (simp add: m add.commute)
    have acc3: "var_cum_length_m s2 = running_total ml (cs @ [c]) (length (cs @ [c]) - 1)"
      using acc2 acc seg tot by (simp add: m running_total_Suc)
    show ?thesis
      using run2 rows3 acc3 idx2 lp2 cc2 cc meas2 meas ids2 ids das2 das pos by simp
  qed
qed

lemma is_complete_complete_row: "is_complete (complete_row ml cs k)"
  by (simp add: is_complete_def complete_row_def closed_row_def)

lemma not_is_complete_new_row: "\<not> is_complete (new_row i p)"
  by (simp add: is_complete_def new_row_def)

lemma Line_ID_complete_row: "Line_ID (complete_row ml cs k) = int k + 1"
  by (simp add: complete_row_def closed_row_def)

lemma Line_ID_new_row: "Line_ID (new_row i p) = i"
  by (simp add: new_row_def)

lemma filter_complete_rows:
  "filter is_complete (map (complete_row ml cs) ks) = map (complete_row ml cs) ks"
  by (induction ks) (simp_all add: is_complete_complete_row)

lemma ids_from_one: "map (\<lambda>k. int k + 1) [0..<m] = map int [1..<Suc m]"
  by (induction m) simp_all

text \<open>
  C5.  A run of \<open>n \<ge> 2\<close> primary-button presses that starts with the click counter at zero
  raises no error and leaves a table of \<open>n\<close> rows: the first \<open>n - 1\<close> are the complete ones,
  with ids \<open>1, \<dots>, n - 1\<close> in click order, the last one is open with id \<open>n\<close>, and the id
  counter stands at \<open>n\<close>, one increment per click.
\<close>

theorem clicks_build_table:
  assumes "click_count s = 0" "2 \<le> length cs"
  shows "\<exists>s'. press_all ml cs s = Inr s'
     \<and> length (table_rows s') = length cs
     \<and> filter is_complete (table_rows s') = butlast (table_rows s')
     \<and> length (filter is_complete (table_rows s')) = length cs - 1
     \<and> map Line_ID (filter is_complete (table_rows s')) = map int [1..<length cs]
     \<and> \<not> is_complete (last (table_rows s'))
     \<and> Line_ID (last (table_rows s')) = int (length cs)
     \<and> point_id_counter s' = int (length cs)
     \<and> click_count s' = length cs"
proof -
  have ne: "cs \<noteq> []" using assms(2) by auto
  obtain m where m: "length cs = Suc m"
    using assms(2) by (cases "length cs") simp_all
  from session_state [OF assms(1) ne, of ml] obtain s' where
    run: "press_all ml cs s = Inr s'"
    and rows: "table_rows s' = map (complete_row ml cs) [0..<length cs - 1]
                 @ [new_row (int (length cs)) (snd (last cs))]"
    and ids: "point_id_counter s' = int (length cs)"
    and cc: "click_count s' = length cs"
    by blast
  have done_rows: "filter is_complete (table_rows s') = map (complete_row ml cs) [0..<length cs - 1]"
    by (simp add: rows filter_complete_rows not_is_complete_new_row)
  have "map Line_ID (filter is_complete (table_rows s')) = map (\<lambda>k. int k + 1) [0..<m]"
    by (simp add: done_rows m Line_ID_complete_row)
  then have idlist: "map Line_ID (filter is_complete (table_rows s')) = map int [1..<length cs]"
    by (simp only: ids_from_one m)
  have "length (table_rows s') = length cs"
    by (simp add: rows m)
  moreover have "filter is_complete (table_rows s') = butlast (table_rows s')"
    by (simp add: done_rows) (simp add: rows)
  moreover have "length (filter is_complete (table_rows s')) = length cs - 1"
    by (simp add: done_rows)
  moreover have "\<not> is_complete (last (table_rows s'))"
    by (simp add: rows not_is_complete_new_row)
  moreover have "Line_ID (last (table_rows s')) = int (length cs)"
    by (simp add: rows Line_ID_new_row)
  ultimately show ?thesis
    using run idlist ids cc by blast
qed

theorem clicks_build_table_witness:
  "click_count (init_tool env_geo) = 0 \<and> 2 \<le> length demo_clicks
   \<and> (\<exists>s'. press_all flat_measure demo_clicks (init_tool env_geo) = Inr s'
     \<and> length (table_rows s') = 3
     \<and> filter is_complete (table_rows s') = butlast (table_rows s')
     \<and> length (filter is_complete (table_rows s')) = 2
     \<and> map Line_ID (filter is_complete (table_rows s')) = [1, 2]
     \<and> \<not> is_complete (last (table_rows s'))
     \<and> Line_ID (last (table_rows s')) = 3
     \<and> point_id_counter s' = 3
     \<and> click_count s' = 3)"
proof -
  have h1: "click_count (init_tool env_geo) = 0" by (simp add: init_tool_def)
  have h2: "2 \<le> length demo_clicks" by (simp add: demo_clicks_def)
  have len: "length demo_clicks = 3" by (simp add: demo_clicks_def)
  have l: "map int [Suc 0..<3] = [1, 2]" by (simp add: upt_rec)
  show ?thesis
    using clicks_build_table [OF h1 h2, of flat_measure] h1 h2
    by (simp add: len l)
qed

section \<open>Finishing a session\<close>

lemma make_features_total:
  "\<forall>r\<in>set rs. P2x r \<noteq> None \<and> P2y r \<noteq> None \<Longrightarrow>
   \<exists>fs. make_features xf c rs = Inr fs \<and> length fs = length rs
     \<and> (\<forall>j<length rs. make_feature xf c (rs ! j) = Inr (fs ! j))"
proof (induction rs)
  case Nil
  then show ?case by simp
next
  case (Cons r rs)
  from Cons.prems obtain x2 y2 where p2: "P2x r = Some x2" "P2y r = Some y2"
    by auto
  then obtain f where f: "make_feature xf c r = Inr f"
    by (simp add: make_feature_def Let_def)
  from Cons obtain fs where fs: "make_features xf c rs = Inr fs" "length fs = length rs"
    "\<forall>j<length rs. make_feature xf c (rs ! j) = Inr (fs ! j)"
    by auto
  have "make_features xf c (r # rs) = Inr (f # fs)"
    by (simp add: f fs(1))
  moreover have "\<forall>j<length (r # rs). make_feature xf c ((r # rs) ! j) = Inr ((f # fs) ! j)"
    using f fs(3) by (auto simp: nth_Cons split: nat.splits)
  ultimately show ?case using fs(2) by auto
qed

lemma complete_row_has_end:
  "P2x (complete_row ml cs k) \<noteq> None \<and> P2y (complete_row ml cs k) \<noteq> None"
  by (simp add: complete_row_def closed_row_def)

lemma session_finish:
  assumes "click_count s = 0" "Suc k < length cs"
  shows "\<exists>s' s'' lay. press_all ml cs s = Inr s'
     \<and> finish_measurement xf e stamp s' = Inr (s'', Some lay)
     \<and> length (features lay) = length cs - 1
     \<and> table_rows s' ! k = complete_row ml cs k
     \<and> make_feature xf (destinationCrs e) (complete_row ml cs k) = Inr (features lay ! k)"
proof -
  have ne: "cs \<noteq> []" using assms(2) by auto
  obtain m where m: "length cs = Suc m" and km: "k < m"
    using assms(2) by (cases "length cs") simp_all
  from session_state [OF assms(1) ne, of ml] obtain s' where
    run: "press_all ml cs s = Inr s'"
    and rows: "table_rows s' = map (complete_row ml cs) [0..<length cs - 1]
                 @ [new_row (int (length cs)) (snd (last cs))]"
    by blast
  have rows': "table_rows s' = map (complete_row ml cs) [0..<m] @ [new_row (int (length cs)) (snd (last cs))]"
    using rows by (simp add: m)
  have kth: "table_rows s' ! k = complete_row ml cs k"
    using km by (simp add: rows' nth_append)
  have final: "filter is_complete (table_rows s') = map (complete_row ml cs) [0..<m]"
    by (simp add: rows' filter_complete_rows not_is_complete_new_row)
  have "\<forall>r\<in>set (map (complete_row ml cs) [0..<m]). P2x r \<noteq> None \<and> P2y r \<noteq> None"
    using complete_row_has_end by auto
  from make_features_total [OF this, of xf "destinationCrs e"] obtain fs where
    fs: "make_features xf (destinationCrs e) (map (complete_row ml cs) [0..<m]) = Inr fs"
    and len: "length fs = m"
    and each: "\<forall>j<m. make_feature xf (destinationCrs e) (complete_row ml cs j) = Inr (fs ! j)"
    by auto
  have "\<exists>s''. finish_measurement xf e stamp s'
      = Inr (s'', Some \<lparr>layer_crs = authid (destinationCrs e),
                        layer_name = ''Measurement_'' @ stamp, features = fs\<rparr>)"
    using km by (simp add: finish_measurement_def final fs)
  then show ?thesis
    using run kth each km len m by fastforce
qed

lemma make_feature_complete_row:
  "make_feature xf c (complete_row ml cs k) =
     Inr \<lparr>geometry = [stored_point (snd (cs ! k)), stored_point (snd (cs ! Suc k))],
          attr_Line_ID = int k + 1,
          attr_Start = point_text (if isGeographic c then stored_point (snd (cs ! k))
                                   else xf c wgs84_crs (stored_point (snd (cs ! k)))),
          attr_Stop = point_text (if isGeographic c then stored_point (snd (cs ! Suc k))
                                  else xf c wgs84_crs (stored_point (snd (cs ! Suc k)))),
          attr_length_m = length_m (complete_row ml cs k),
          attr_length_nm = length_nm (complete_row ml cs k),
          attr_cum_length_m = cum_length_m (complete_row ml cs k),
          attr_cum_length_nm = cum_length_nm (complete_row ml cs k)\<rparr>"
  by (simp add: make_feature_def complete_row_def closed_row_def Let_def)

lemma complete_row_fields:
  "P1x (complete_row ml cs k) = py_round (fst (snd (cs ! k))) 6"
  "P1y (complete_row ml cs k) = py_round (snd (snd (cs ! k))) 6"
  "P2x (complete_row ml cs k) = Some (py_round (fst (snd (cs ! Suc k))) 6)"
  "P2y (complete_row ml cs k) = Some (py_round (snd (snd (cs ! Suc k))) 6)"
  "length_m (complete_row ml cs k) = Some (py_round (segment_length ml cs k) 1)"
  "length_nm (complete_row ml cs k) = Some (py_round (segment_length ml cs k / 1852) 2)"
  "cum_length_m (complete_row ml cs k) = Some (py_round (sum (segment_length ml cs) {..k}) 1)"
  "cum_length_nm (complete_row ml cs k) = Some (py_round (sum (segment_length ml cs) {..k} / 1852) 2)"
  by (simp_all add: complete_row_def closed_row_def stored_point_def segment_length_def
      running_total_def lessThan_Suc_atMost [symmetric] add.commute)

lemma feature_of_complete_row:
  "make_feature xf c (complete_row ml cs k) = Inr f \<Longrightarrow>
   geometry f = [stored_point (snd (cs ! k)), stored_point (snd (cs ! Suc k))]
   \<and> attr_Line_ID f = int k + 1
   \<and> attr_Start f = point_text (if isGeographic c then stored_point (snd (cs ! k))
                                  else xf c wgs84_crs (stored_point (snd (cs ! k))))
   \<and> attr_Stop f = point_text (if isGeographic c then stored_point (snd (cs ! Suc k))
                                 else xf c wgs84_crs (stored_point (snd (cs ! Suc k))))
   \<and> attr_length_m f = length_m (complete_row ml cs k)
   \<and> attr_length_nm f = length_nm (complete_row ml cs k)
   \<and> attr_cum_length_m f = cum_length_m (complete_row ml cs k)
   \<and> attr_cum_length_nm f = cum_length_nm (complete_row ml cs k)"
  unfolding make_feature_complete_row by auto

lemmas round_eval = py_round_def round_half_even_def

lemma demo_segment_lengths:
  "segment_length flat_measure demo_clicks 0 = 111320"
  "segment_length flat_measure demo_clicks (Suc 0) = 111320"
  by (simp_all add: segment_length_def demo_clicks_def stored_point_def round_eval
      flat_measure_def new_distance_area_def env_geo_def)

text \<open>
  C7.  For the \<open>k\<close>-th complete segment of a session, the table stores the measured length
  rounded to one decimal, that length divided by 1852 rounded to two decimals, the running sum
  of the unrounded lengths rounded to one decimal, and that sum divided by 1852 rounded to two
  decimals; each value is rounded on its own from unrounded data.  Finishing the session emits
  these four stored values unchanged as the attributes of the \<open>k\<close>-th feature.
\<close>

theorem stored_and_emitted_lengths:
  assumes "click_count s = 0" "Suc k < length cs"
  shows "\<exists>s' s'' lay. press_all ml cs s = Inr s'
     \<and> finish_measurement xf e stamp s' = Inr (s'', Some lay)
     \<and> length (features lay) = length cs - 1
     \<and> length_m (table_rows s' ! k) = Some (py_round (segment_length ml cs k) 1)
     \<and> length_nm (table_rows s' ! k) = Some (py_round (segment_length ml cs k / 1852) 2)
     \<and> cum_length_m (table_rows s' ! k) = Some (py_round (sum (segment_length ml cs) {..k}) 1)
     \<and> cum_length_nm (table_rows s' ! k)
         = Some (py_round (sum (segment_length ml cs) {..k} / 1852) 2)
     \<and> attr_length_m (features lay ! k) = length_m (table_rows s' ! k)
     \<and> attr_length_nm (features lay ! k) = length_nm (table_rows s' ! k)
     \<and> attr_cum_length_m (features lay ! k) = cum_length_m (table_rows s' ! k)
     \<and> attr_cum_length_nm (features lay ! k) = cum_length_nm (table_rows s' ! k)"
proof -
  from session_finish [OF assms, of ml xf e stamp] obtain s' s'' lay where
    run: "press_all ml cs s = Inr s'"
    and fin: "finish_measurement xf e stamp s' = Inr (s'', Some lay)"
    and len: "length (features lay) = length cs - 1"
    and kth: "table_rows s' ! k = complete_row ml cs k"
    and feat: "make_feature xf (destinationCrs e) (complete_row ml cs k) = Inr (features lay ! k)"
    by blast
  note attrs = feature_of_complete_row [OF feat]
  show ?thesis
    using run fin len attrs by (auto simp: kth complete_row_fields)
qed

theorem stored_and_emitted_lengths_witness:
  "click_count (init_tool env_geo) = 0 \<and> Suc (Suc 0) < length demo_clicks
   \<and> (\<exists>s' s'' lay. press_all flat_measure demo_clicks (init_tool env_geo) = Inr s'
     \<and> finish_measurement flat_transform env_geo ''20240101_120000'' s' = Inr (s'', Some lay)
     \<and> length (features lay) = 2
     \<and> length_m (table_rows s' ! Suc 0) = Some 111320
     \<and> length_nm (table_rows s' ! Suc 0) = Some (6011 / 100)
     \<and> cum_length_m (table_rows s' ! Suc 0) = Some 222640
     \<and> cum_length_nm (table_rows s' ! Suc 0) = Some (12022 / 100)
     \<and> attr_length_m (features lay ! Suc 0) = Some 111320
     \<and> attr_length_nm (features lay ! Suc 0) = Some (6011 / 100)
     \<and> attr_cum_length_m (features lay ! Suc 0) = Some 222640
     \<and> attr_cum_length_nm (features lay ! Suc 0) = Some (12022 / 100))"
proof -
  have h1: "click_count (init_tool env_geo) = 0" by (simp add: init_tool_def)
  have h2: "Suc (Suc 0) < length demo_clicks" by (simp add: demo_clicks_def)
  have len: "length demo_clicks = 3" by (simp add: demo_clicks_def)
  from stored_and_emitted_lengths [OF h1 h2, of flat_measure flat_transform env_geo "''20240101_120000''"]
  obtain s' s'' lay where
    "press_all flat_measure demo_clicks (init_tool env_geo) = Inr s'"
    "finish_measurement flat_transform env_geo ''20240101_120000'' s' = Inr (s'', Some lay)"
    "length (features lay) = 2"
    "length_m (table_rows s' ! Suc 0) = Some 111320"
    "length_nm (table_rows s' ! Suc 0) = Some (6011 / 100)"
    "cum_length_m (table_rows s' ! Suc 0) = Some 222640"
    "cum_length_nm (table_rows s' ! Suc 0) = Some (12022 / 100)"
    "attr_length_m (features lay ! Suc 0) = length_m (table_rows s' ! Suc 0)"
    "attr_length_nm (features lay ! Suc 0) = length_nm (table_rows s' ! Suc 0)"
    "attr_cum_length_m (features lay ! Suc 0) = cum_length_m (table_rows s' ! Suc 0)"
    "attr_cum_length_nm (features lay ! Suc 0) = cum_length_nm (table_rows s' ! Suc 0)"
    by (auto simp: len demo_segment_lengths round_eval)
  then show ?thesis using h1 h2 by auto
qed

section \<open>What the length is measured between\<close>

lemma session_row:
  assumes "click_count s = 0" "Suc k < length cs"
  shows "\<exists>s'. press_all ml cs s = Inr s' \<and> table_rows s' ! k = complete_row ml cs k"
proof -
  fix xf :: transform_service and e :: env and stamp :: string
  from session_finish [OF assms, of ml xf e stamp] show ?thesis by blast
qed

text \<open>
  C9, as the code has it.  The coordinates of a click are rounded to six decimals when they are
  written into the table, and they are not rounded again later.  The length of a segment is
  measured between the stored, rounded end points of its row, not between the raw click
  coordinates; the measured length is then rounded on its own.
\<close>

theorem lengths_use_stored_coordinates:
  assumes "click_count s = 0" "Suc k < length cs"
  shows "\<exists>s'. press_all ml cs s = Inr s'
     \<and> P1x (table_rows s' ! k) = py_round (fst (snd (cs ! k))) 6
     \<and> P1y (table_rows s' ! k) = py_round (snd (snd (cs ! k))) 6
     \<and> P2x (table_rows s' ! k) = Some (py_round (fst (snd (cs ! Suc k))) 6)
     \<and> P2y (table_rows s' ! k) = Some (py_round (snd (snd (cs ! Suc k))) 6)
     \<and> length_m (table_rows s' ! k)
         = Some (py_round
             (ml (new_distance_area (fst (cs ! Suc k)))
                 (py_round (fst (snd (cs ! k))) 6, py_round (snd (snd (cs ! k))) 6)
                 (py_round (fst (snd (cs ! Suc k))) 6, py_round (snd (snd (cs ! Suc k))) 6)) 1)"
proof -
  from session_row [OF assms, of ml] obtain s' where
    run: "press_all ml cs s = Inr s'" and kth: "table_rows s' ! k = complete_row ml cs k"
    by blast
  have "length_m (complete_row ml cs k)
      = Some (py_round
          (ml (new_distance_area (fst (cs ! Suc k)))
              (py_round (fst (snd (cs ! k))) 6, py_round (snd (snd (cs ! k))) 6)
              (py_round (fst (snd (cs ! Suc k))) 6, py_round (snd (snd (cs ! Suc k))) 6)) 1)"
    by (simp add: complete_row_fields segment_length_def stored_point_def)
  then show ?thesis
    using run by (auto simp: kth complete_row_fields)
qed

theorem lengths_use_stored_coordinates_witness:
  "click_count (init_tool env_geo) = 0 \<and> Suc 0 < length near_clicks
   \<and> (\<exists>s'. press_all flat_measure near_clicks (init_tool env_geo) = Inr s'
     \<and> P1x (table_rows s' ! 0) = 0 \<and> P1y (table_rows s' ! 0) = 0
     \<and> P2x (table_rows s' ! 0) = Some (1 / 1000000) \<and> P2y (table_rows s' ! 0) = Some 0
     \<and> length_m (table_rows s' ! 0) = Some (1 / 10))"
proof -
  have h1: "click_count (init_tool env_geo) = 0" by (simp add: init_tool_def)
  have h2: "Suc 0 < length near_clicks" by (simp add: near_clicks_def)
  from lengths_use_stored_coordinates [OF h1 h2, of flat_measure]
  show ?thesis
    using h1 h2
    by (simp add: near_clicks_def round_eval flat_measure_def new_distance_area_def env_geo_def)
qed

text \<open>
  Two clicks \<open>0.00000149\<close> degrees apart: the table holds the length \<open>0.1\<close>, measured from
  the stored coordinates, while the raw click coordinates give \<open>0.2\<close>.
\<close>

theorem raw_coordinates_counterexample:
  "map_sum id (map length_m \<circ> table_rows) (press_all flat_measure near_clicks (init_tool env_geo))
     = Inr [Some (1 / 10), None]
   \<and> py_round (flat_measure (new_distance_area env_geo) (0, 0) (149 / 100000000, 0)) 1 = 2 / 10"
  by (simp add: near_clicks_def canvasPressEvent_def init_tool_def start_new_measurement_def
      calculate_segment_def measure_length_dynamic_def new_row_def Let_def
      round_eval flat_measure_def new_distance_area_def env_geo_def)

section \<open>Start and stop texts\<close>

lemma four_decimals:
  "fmt_fixed 4 0 = ''0.0000''" "fmt_fixed 4 1 = ''1.0000''" "fmt_fixed 4 5 = ''5.0000''"
  "fmt_fixed 4 54 = ''54.0000''" "fmt_fixed 4 55 = ''55.0000''"
  by (simp_all add: fmt_eval)

lemma six_decimals:
  "py_round 0 6 = 0" "py_round 1 6 = 1" "py_round 500000 6 = 500000"
  "py_round 5400000 6 = 5400000" "py_round 5500000 6 = 5500000"
  by (simp_all add: round_eval)

lemma click_points:
  "snd (demo_clicks ! 0) = (0, 0)" "snd (demo_clicks ! Suc 0) = (0, 1)"
  "snd (utm_clicks ! 0) = (500000, 5400000)" "snd (utm_clicks ! Suc 0) = (500000, 5500000)"
  by (simp_all add: demo_clicks_def utm_clicks_def)

text \<open>
  C8.  When a session is finished, the \<open>Start\<close> and \<open>Stop\<close> attributes of the \<open>k\<close>-th
  feature are built from the end points stored in the \<open>k\<close>-th row.  If the canvas's reference
  system is geographic at that time, the stored coordinates are formatted as they are; if it
  is not, each end point first goes through the transform to EPSG:4326.  In both cases the
  text is the second coordinate (latitude), a comma and a blank, and the first coordinate
  (longitude), each with four decimals.
\<close>

theorem start_stop_text:
  assumes "click_count s = 0" "Suc k < length cs"
  shows "\<exists>s' s'' lay x1 y1 x2 y2. press_all ml cs s = Inr s'
     \<and> finish_measurement xf e stamp s' = Inr (s'', Some lay)
     \<and> P1x (table_rows s' ! k) = x1 \<and> P1y (table_rows s' ! k) = y1
     \<and> P2x (table_rows s' ! k) = Some x2 \<and> P2y (table_rows s' ! k) = Some y2
     \<and> x1 = py_round (fst (snd (cs ! k))) 6 \<and> y1 = py_round (snd (snd (cs ! k))) 6
     \<and> x2 = py_round (fst (snd (cs ! Suc k))) 6 \<and> y2 = py_round (snd (snd (cs ! Suc k))) 6
     \<and> attr_Start (features lay ! k) =
         (if isGeographic (destinationCrs e)
          then fmt_fixed 4 y1 @ '', '' @ fmt_fixed 4 x1
          else fmt_fixed 4 (snd (xf (destinationCrs e) wgs84_crs (x1, y1)))
               @ '', '' @ fmt_fixed 4 (fst (xf (destinationCrs e) wgs84_crs (x1, y1))))
     \<and> attr_Stop (features lay ! k) =
         (if isGeographic (destinationCrs e)
          then fmt_fixed 4 y2 @ '', '' @ fmt_fixed 4 x2
          else fmt_fixed 4 (snd (xf (destinationCrs e) wgs84_crs (x2, y2)))
               @ '', '' @ fmt_fixed 4 (fst (xf (destinationCrs e) wgs84_crs (x2, y2))))"
proof -
  from session_finish [OF assms, of ml xf e stamp] obtain s' s'' lay where
    run: "press_all ml cs s = Inr s'"
    and fin: "finish_measurement xf e stamp s' = Inr (s'', Some lay)"
    and kth: "table_rows s' ! k = complete_row ml cs k"
    and feat: "make_feature xf (destinationCrs e) (complete_row ml cs k) = Inr (features lay ! k)"
    by blast
  note attrs = feature_of_complete_row [OF feat]
  have "attr_Start (features lay ! k) =
         (if isGeographic (destinationCrs e)
          then fmt_fixed 4 (py_round (snd (snd (cs ! k))) 6) @ '', ''
               @ fmt_fixed 4 (py_round (fst (snd (cs ! k))) 6)
          else fmt_fixed 4 (snd (xf (destinationCrs e) wgs84_crs
                 (py_round (fst (snd (cs ! k))) 6, py_round (snd (snd (cs ! k))) 6)))
               @ '', '' @ fmt_fixed 4 (fst (xf (destinationCrs e) wgs84_crs
                 (py_round (fst (snd (cs ! k))) 6, py_round (snd (snd (cs ! k))) 6))))"
    using attrs by (simp add: point_text_def stored_point_def)
  moreover have "attr_Stop (features lay ! k) =
         (if isGeographic (destinationCrs e)
          then fmt_fixed 4 (py_round (snd (snd (cs ! Suc k))) 6) @ '', ''
               @ fmt_fixed 4 (py_round (fst (snd (cs ! Suc k))) 6)
          else fmt_fixed 4 (snd (xf (destinationCrs e) wgs84_crs
                 (py_round (fst (snd (cs ! Suc k))) 6, py_round (snd (snd (cs ! Suc k))) 6)))
               @ '', '' @ fmt_fixed 4 (fst (xf (destinationCrs e) wgs84_crs
                 (py_round (fst (snd (cs ! Suc k))) 6, py_round (snd (snd (cs ! Suc k))) 6))))"
    using attrs by (simp add: point_text_def stored_point_def)
  moreover have "P1x (table_rows s' ! k) = py_round (fst (snd (cs ! k))) 6"
    "P1y (table_rows s' ! k) = py_round (snd (snd (cs ! k))) 6"
    "P2x (table_rows s' ! k) = Some (py_round (fst (snd (cs ! Suc k))) 6)"
    "P2y (table_rows s' ! k) = Some (py_round (snd (snd (cs ! Suc k))) 6)"
    by (simp_all add: kth complete_row_fields)
  ultimately show ?thesis
    using run fin by blast
qed

theorem start_stop_text_witness:
  "click_count (init_tool env_geo) = 0 \<and> Suc 0 < length demo_clicks \<and> Suc 0 < length utm_clicks
   \<and> (\<exists>s' s'' lay. press_all flat_measure demo_clicks (init_tool env_geo) = Inr s'
        \<and> finish_measurement flat_transform env_geo ''20240101_120000'' s' = Inr (s'', Some lay)
        \<and> P1x (table_rows s' ! 0) = 0 \<and> P1y (table_rows s' ! 0) = 0
        \<and> P2x (table_rows s' ! 0) = Some 0 \<and> P2y (table_rows s' ! 0) = Some 1
        \<and> attr_Start (features lay ! 0) = ''0.0000, 0.0000''
        \<and> attr_Stop (features lay ! 0) = ''1.0000, 0.0000'')
   \<and> (\<exists>s' s'' lay. press_all flat_measure utm_clicks (init_tool env_geo) = Inr s'
        \<and> finish_measurement flat_transform env_utm ''20240101_120000'' s' = Inr (s'', Some lay)
        \<and> P1x (table_rows s' ! 0) = 500000 \<and> P1y (table_rows s' ! 0) = 5400000
        \<and> P2x (table_rows s' ! 0) = Some 500000 \<and> P2y (table_rows s' ! 0) = Some 5500000
        \<and> attr_Start (features lay ! 0) = ''54.0000, 5.0000''
        \<and> attr_Stop (features lay ! 0) = ''55.0000, 5.0000'')"
proof -
  have h1: "click_count (init_tool env_geo) = 0" by (simp add: init_tool_def)
  have h2: "Suc 0 < length demo_clicks" by (simp add: demo_clicks_def)
  have h3: "Suc 0 < length utm_clicks" by (simp add: utm_clicks_def)
  have geo: "isGeographic (destinationCrs env_geo)" "\<not> isGeographic (destinationCrs env_utm)"
    by (simp_all add: env_geo_def env_utm_def)
  from start_stop_text [OF h1 h2, of flat_measure flat_transform env_geo "''20240101_120000''"]
  obtain s' s'' lay where
    "press_all flat_measure demo_clicks (init_tool env_geo) = Inr s'"
    "finish_measurement flat_transform env_geo ''20240101_120000'' s' = Inr (s'', Some lay)"
    "P1x (table_rows s' ! 0) = 0" "P1y (table_rows s' ! 0) = 0"
    "P2x (table_rows s' ! 0) = Some 0" "P2y (table_rows s' ! 0) = Some 1"
    "attr_Start (features lay ! 0) = ''0.0000, 0.0000''"
    "attr_Stop (features lay ! 0) = ''1.0000, 0.0000''"
    by (auto simp: geo click_points six_decimals four_decimals)
  then have a: "\<exists>s' s'' lay. press_all flat_measure demo_clicks (init_tool env_geo) = Inr s'
        \<and> finish_measurement flat_transform env_geo ''20240101_120000'' s' = Inr (s'', Some lay)
        \<and> P1x (table_rows s' ! 0) = 0 \<and> P1y (table_rows s' ! 0) = 0
        \<and> P2x (table_rows s' ! 0) = Some 0 \<and> P2y (table_rows s' ! 0) = Some 1
        \<and> attr_Start (features lay ! 0) = ''0.0000, 0.0000''
        \<and> attr_Stop (features lay ! 0) = ''1.0000, 0.0000''"
    by blast
  from start_stop_text [OF h1 h3, of flat_measure flat_transform env_utm "''20240101_120000''"]
  obtain t' t'' lay' where
    "press_all flat_measure utm_clicks (init_tool env_geo) = Inr t'"
    "finish_measurement flat_transform env_utm ''20240101_120000'' t' = Inr (t'', Some lay')"
    "P1x (table_rows t' ! 0) = 500000" "P1y (table_rows t' ! 0) = 5400000"
    "P2x (table_rows t' ! 0) = Some 500000" "P2y (table_rows t' ! 0) = Some 5500000"
    "attr_Start (features lay' ! 0) = ''54.0000, 5.0000''"
    "attr_Stop (features lay' ! 0) = ''55.0000, 5.0000''"
    by (auto simp: geo click_points six_decimals flat_transform_def four_decimals)
  then have b: "\<exists>s' s'' lay. press_all flat_measure utm_clicks (init_tool env_geo) = Inr s'
        \<and> finish_measurement flat_transform env_utm ''20240101_120000'' s' = Inr (s'', Some lay)
        \<and> P1x (table_rows s' ! 0) = 500000 \<and> P1y (table_rows s' ! 0) = 5400000
        \<and> P2x (table_rows s' ! 0) = Some 500000 \<and> P2y (table_rows s' ! 0) = Some 5500000
        \<and> attr_Start (features lay ! 0) = ''54.0000, 5.0000''
        \<and> attr_Stop (features lay ! 0) = ''55.0000, 5.0000''"
    by blast
  show ?thesis using h1 h2 h3 a b by blast
qed

section \<open>Cumulative lengths\<close>

lemma round_half_even_floor: "\<lfloor>y\<rfloor> \<le> round_half_even y \<and> round_half_even y \<le> \<lfloor>y\<rfloor> + 1"
  by (simp add: round_half_even_def Let_def)

lemma round_half_even_near:
  "y - 1 / 2 \<le> of_int (round_half_even y) \<and> of_int (round_half_even y) \<le> y + 1 / 2"
proof -
  define f where "f = \<lfloor>y\<rfloor>"
  have "of_int f \<le> y" "y < of_int f + 1" unfolding f_def by linarith+
  then show ?thesis
    unfolding round_half_even_def Let_def f_def [symmetric] by auto
qed

lemma round_half_even_mono:
  assumes "x \<le> y"
  shows "round_half_even x \<le> round_half_even y"
proof (cases "\<lfloor>x\<rfloor> < \<lfloor>y\<rfloor>")
  case True
  have "round_half_even x \<le> \<lfloor>x\<rfloor> + 1" using round_half_even_floor [of x] by simp
  also have "\<dots> \<le> \<lfloor>y\<rfloor>" using True by simp
  also have "\<dots> \<le> round_half_even y" using round_half_even_floor [of y] by simp
  finally show ?thesis .
next
  case False
  moreover have "\<lfloor>x\<rfloor> \<le> \<lfloor>y\<rfloor>" using assms by (rule floor_mono)
  ultimately have eq: "\<lfloor>x\<rfloor> = \<lfloor>y\<rfloor>" by simp
  show ?thesis
    using assms by (auto simp: round_half_even_def Let_def eq)
qed

lemma py_round_mono: "x \<le> y \<Longrightarrow> py_round x nd \<le> py_round y nd"
proof -
  assume "x \<le> y"
  then have "x * 10 ^ nd \<le> y * 10 ^ nd" by (simp add: mult_right_mono)
  then have "round_half_even (x * 10 ^ nd) \<le> round_half_even (y * 10 ^ nd)"
    by (rule round_half_even_mono)
  then show ?thesis
    by (simp add: py_round_def divide_right_mono)
qed

lemma py_round_near: "\<bar>py_round x nd - x\<bar> \<le> 1 / (2 * 10 ^ nd)"
proof -
  define a where "a = of_int (round_half_even (x * 10 ^ nd)) - x * 10 ^ nd"
  have p: "(0::real) < 10 ^ nd" by simp
  from round_half_even_near [of "x * 10 ^ nd"]
  have "\<bar>a\<bar> \<le> 1 / 2" unfolding a_def by linarith
  then have "\<bar>a\<bar> / 10 ^ nd \<le> (1 / 2) / 10 ^ nd"
    by (rule divide_right_mono) simp
  moreover have "py_round x nd - x = a / 10 ^ nd"
    unfolding a_def py_round_def by (simp add: diff_divide_distrib)
  then have "\<bar>py_round x nd - x\<bar> = \<bar>a\<bar> / 10 ^ nd"
    by (simp only: abs_divide) simp
  ultimately show ?thesis by simp
qed

lemma sum_of_roundings_near:
  "\<bar>(\<Sum>i\<le>k. py_round (f i) 1) - (\<Sum>i\<le>k. f i)\<bar> \<le> (real k + 1) / 20"
proof -
  have "\<bar>(\<Sum>i\<le>k. py_round (f i) 1) - (\<Sum>i\<le>k. f i)\<bar> = \<bar>\<Sum>i\<le>k. (py_round (f i) 1 - f i)\<bar>"
    by (simp add: sum_subtractf)
  also have "\<dots> \<le> (\<Sum>i\<le>k. \<bar>py_round (f i) 1 - f i\<bar>)" by (rule sum_abs)
  also have "\<dots> \<le> (\<Sum>i\<le>k. 1 / 20)"
    by (rule sum_mono) (use py_round_near [of _ 1] in simp)
  also have "\<dots> = (real k + 1) / 20" by simp
  finally show ?thesis .
qed


lemma session_rows:
  assumes "click_count s = 0" "Suc k < length cs"
  shows "\<exists>s'. press_all ml cs s = Inr s' \<and> (\<forall>i\<le>k. table_rows s' ! i = complete_row ml cs i)"
proof -
  have ne: "cs \<noteq> []" using assms(2) by auto
  from session_state [OF assms(1) ne, of ml] obtain s' where
    run: "press_all ml cs s = Inr s'"
    and rows: "table_rows s' = map (complete_row ml cs) [0..<length cs - 1]
                 @ [new_row (int (length cs)) (snd (last cs))]"
    by blast
  have "table_rows s' ! i = complete_row ml cs i" if "i \<le> k" for i
  proof -
    have "i < length cs - 1" using that assms(2) by simp
    then show ?thesis by (simp add: rows nth_append)
  qed
  then show ?thesis using run by blast
qed

lemma flat_measure_nonneg: "\<forall>c p q. 0 \<le> flat_measure c p q"
  by (simp add: flat_measure_def)

text \<open>
  C6.  In a session measured by a service that returns no negative length, the cumulative
  length stored for the \<open>k\<close>-th complete segment is the one-decimal rounding of the sum of the
  unrounded lengths of segments \<open>0, \<dots>, k\<close> (the running accumulator).  It differs from the
  sum of the stored, rounded segment lengths by at most \<open>(k + 2) / 20\<close>, and no earlier
  segment has a larger cumulative length.
\<close>

theorem cumulative_lengths:
  assumes "click_count s = 0" "Suc k < length cs" "\<forall>c p q. 0 \<le> ml c p q"
  shows "\<exists>s' c. press_all ml cs s = Inr s'
     \<and> cum_length_m (table_rows s' ! k) = Some c
     \<and> c = py_round (sum (segment_length ml cs) {..k}) 1
     \<and> (\<forall>i\<le>k. length_m (table_rows s' ! i) = Some (py_round (segment_length ml cs i) 1))
     \<and> \<bar>c - (\<Sum>i\<le>k. py_round (segment_length ml cs i) 1)\<bar> \<le> (real k + 2) / 20
     \<and> (\<forall>j\<le>k. \<exists>a. cum_length_m (table_rows s' ! j) = Some a \<and> a \<le> c)"
proof -
  from session_rows [OF assms(1,2), of ml] obtain s' where
    run: "press_all ml cs s = Inr s'"
    and rows: "\<forall>i\<le>k. table_rows s' ! i = complete_row ml cs i"
    by blast
  define total where "total j = sum (segment_length ml cs) {..j}" for j
  have cum: "cum_length_m (table_rows s' ! j) = Some (py_round (total j) 1)" if "j \<le> k" for j
    using rows that by (simp add: complete_row_fields total_def)
  have len: "length_m (table_rows s' ! i) = Some (py_round (segment_length ml cs i) 1)"
    if "i \<le> k" for i
    using rows that by (simp add: complete_row_fields)
  have nonneg: "0 \<le> segment_length ml cs i" for i
    unfolding segment_length_def using assms(3) by blast
  have mono: "py_round (total j) 1 \<le> py_round (total k) 1" if "j \<le> k" for j
  proof -
    have "total j \<le> total k"
      unfolding total_def using that nonneg by (intro sum_mono2) auto
    then show ?thesis by (rule py_round_mono)
  qed
  have near: "\<bar>py_round (total k) 1 - (\<Sum>i\<le>k. py_round (segment_length ml cs i) 1)\<bar>
      \<le> (real k + 2) / 20"
  proof -
    define A where "A = py_round (total k) 1"
    define B where "B = (\<Sum>i\<le>k. py_round (segment_length ml cs i) 1)"
    have h1: "\<bar>A - total k\<bar> \<le> 1 / 20"
      unfolding A_def using py_round_near [of "total k" 1] by simp
    have h2: "\<bar>B - total k\<bar> \<le> (real k + 1) / 20"
      unfolding B_def total_def by (rule sum_of_roundings_near)
    have "\<bar>A - B\<bar> \<le> \<bar>A - total k\<bar> + \<bar>B - total k\<bar>" by linarith
    also have "\<dots> \<le> 1 / 20 + (real k + 1) / 20" using h1 h2 by (rule add_mono)
    also have "\<dots> = (real k + 2) / 20" by (simp add: add_divide_distrib)
    finally show ?thesis unfolding A_def B_def .
  qed
  show ?thesis
    using run cum [of k] len near mono cum
    unfolding total_def by (intro exI [of _ s'] exI [of _ "py_round (total k) 1"]) (auto simp: total_def)
qed

theorem cumulative_lengths_witness:
  "click_count (init_tool env_geo) = 0 \<and> Suc (Suc 0) < length demo_clicks
   \<and> (\<forall>c p q. 0 \<le> flat_measure c p q)
   \<and> (\<exists>s'. press_all flat_measure demo_clicks (init_tool env_geo) = Inr s'
        \<and> cum_length_m (table_rows s' ! Suc 0) = Some 222640
        \<and> length_m (table_rows s' ! 0) = Some 111320
        \<and> length_m (table_rows s' ! Suc 0) = Some 111320
        \<and> (\<exists>a. cum_length_m (table_rows s' ! 0) = Some a \<and> a \<le> 222640))"
proof -
  have h1: "click_count (init_tool env_geo) = 0" by (simp add: init_tool_def)
  have h2: "Suc (Suc 0) < length demo_clicks" by (simp add: demo_clicks_def)
  from cumulative_lengths [OF h1 h2 flat_measure_nonneg] obtain s' c where
    run: "press_all flat_measure demo_clicks (init_tool env_geo) = Inr s'"
    and cum: "cum_length_m (table_rows s' ! Suc 0) = Some c"
    and c: "c = py_round (sum (segment_length flat_measure demo_clicks) {..Suc 0}) 1"
    and len: "\<forall>i\<le>Suc 0. length_m (table_rows s' ! i)
                 = Some (py_round (segment_length flat_measure demo_clicks i) 1)"
    and mono: "\<forall>j\<le>Suc 0. \<exists>a. cum_length_m (table_rows s' ! j) = Some a \<and> a \<le> c"
    by blast
  have c': "c = 222640"
    by (simp add: c demo_segment_lengths round_eval)
  have l0: "length_m (table_rows s' ! 0) = Some 111320"
    using len [rule_format, of 0] by (simp add: demo_segment_lengths round_eval)
  have l1: "length_m (table_rows s' ! Suc 0) = Some 111320"
    using len [rule_format, of "Suc 0"] by (simp add: demo_segment_lengths round_eval)
  have m0: "\<exists>a. cum_length_m (table_rows s' ! 0) = Some a \<and> a \<le> 222640"
    using mono [rule_format, of 0] by (simp add: c')
  show ?thesis
    using h1 h2 flat_measure_nonneg run cum c' l0 l1 m0 by blast
qed

end
